theory Spec2Isabelle
  imports Main "HOL-Library.Sublist"
begin

section \<open>Python values\<close>

text \<open>
  The handlers of \<^verbatim>\<open>src/main.py\<close> receive their form fields as \<^verbatim>\<open>Optional[str]\<close>:
  a field is \<open>None\<close> when it is missing and \<open>Some s\<close> when it is present, also when
  \<open>s\<close> is the empty string. The markup is assembled with f-strings, so every fragment
  is a plain \<open>string\<close>. The apostrophe delimits the attributes of the markup; it is
  written \<open>sq\<close> next to an interpolated value.
\<close>

abbreviation sq :: string where
  "sq \<equiv> [CHR 0x27]"

text \<open>Python's \<^verbatim>\<open>not x\<close> on an optional string: \<^verbatim>\<open>None\<close> and \<^verbatim>\<open>""\<close> are falsy.\<close>

definition py_not :: "string option \<Rightarrow> bool" where
  "py_not x = (case x of None \<Rightarrow> True | Some s \<Rightarrow> s = [])"

text \<open>\<^verbatim>\<open>str(n)\<close> of an integer, as an f-string interpolates it: decimal digits, a sign
  in front of a negative number.\<close>

fun str_nat :: "nat \<Rightarrow> string" where
  "str_nat n =
     (if n < 10 then [''0123456789'' ! n]
      else str_nat (n div 10) @ [''0123456789'' ! (n mod 10)])"

definition str_int :: "int \<Rightarrow> string" where
  "str_int i = (if i < 0 then ''-'' @ str_nat (nat (- i)) else str_nat (nat i))"

text \<open>\<^verbatim>\<open>d.get(key, default)\<close> and \<^verbatim>\<open>d[key]\<close> on a dictionary with string keys, the key
  being an optional string. \<^verbatim>\<open>d[key]\<close> raises \<^verbatim>\<open>KeyError\<close> on an absent key.\<close>

datatype py_error = KeyError

definition dict_get :: "(string \<rightharpoonup> string) \<Rightarrow> string option \<Rightarrow> string \<Rightarrow> string" where
  "dict_get d key dflt =
     (case key of
        None \<Rightarrow> dflt
      | Some k \<Rightarrow> (case d k of None \<Rightarrow> dflt | Some v \<Rightarrow> v))"

definition dict_index :: "(string \<rightharpoonup> string) \<Rightarrow> string option \<Rightarrow> py_error + string" where
  "dict_index d key =
     (case key of
        None \<Rightarrow> Inl KeyError
      | Some k \<Rightarrow> (case d k of None \<Rightarrow> Inl KeyError | Some v \<Rightarrow> Inr v))"


section \<open>The action formatter: \<^verbatim>\<open>src/utils/helper.py\<close>\<close>

text \<open>
  The methods of \<^verbatim>\<open>VoiceHelper\<close> that build markup read none of the object's fields,
  so \<^verbatim>\<open>self\<close> is left out. An options dictionary is a map from key to value.
\<close>

definition saySomething :: "(string \<rightharpoonup> string) \<Rightarrow> string" where
  "saySomething options =
     (let speech = dict_get options (Some ''speech'') ''''
      in ''<Say>'' @ speech @ ''</Say>'')"

definition ongea :: "string \<Rightarrow> string \<Rightarrow> int \<Rightarrow> string \<Rightarrow> string" where
  "ongea textPrompt finishOnKey timeout callbackUrl =
     (let xml = ''<Say>'' @ textPrompt @ ''</Say>''
      in xml @ ''<CollectDigits timeout='' @ sq @ str_int timeout @ sq
           @ '' finishOnKey='' @ sq @ finishOnKey @ sq
           @ '' callbackUrl='' @ sq @ callbackUrl @ sq @ ''/>'')"

definition recordAudio :: "(string \<rightharpoonup> string) \<Rightarrow> string" where
  "recordAudio options =
     (let intro_text = dict_get options (Some ''introductionText'') ''Please record your message'';
          processing_url = dict_get options (Some ''audioProcessingUrl'') '''';
          xml = ''<Say>'' @ intro_text @ ''</Say>''
      in xml @ ''<Record finishOnKey='#' maxLength='60' playBeep='true' callbackUrl=''
           @ sq @ processing_url @ sq @ ''/>'')"

definition collectDigits :: "string \<Rightarrow> int \<Rightarrow> int \<Rightarrow> string \<Rightarrow> string \<Rightarrow> string" where
  "collectDigits prompt numDigits timeout finishOnKey callbackUrl =
     (let xml = ''<Say>'' @ prompt @ ''</Say>''
      in xml @ ''<CollectDigits timeout='' @ sq @ str_int timeout @ sq
           @ '' finishOnKey='' @ sq @ finishOnKey @ sq
           @ '' numDigits='' @ sq @ str_int numDigits @ sq
           @ '' callbackUrl='' @ sq @ callbackUrl @ sq @ ''/>'')"

definition playAudio :: "string \<Rightarrow> string" where
  "playAudio audio_url = ''<Play>'' @ audio_url @ ''</Play>''"

definition redirect :: "string \<Rightarrow> string" where
  "redirect url = ''<Redirect>'' @ url @ ''</Redirect>''"


section \<open>The handlers: \<^verbatim>\<open>src/main.py\<close>\<close>

text \<open>
  A handler returns a \<^verbatim>\<open>Response\<close> (body, status code, media type; the status is 200
  and the media type absent unless given) or raises \<^verbatim>\<open>HTTPException\<close> from its
  \<^verbatim>\<open>except\<close> clause. \<^verbatim>\<open>APP_URL\<close> is read from the environment when the module is
  loaded; it is a parameter here. What \<^verbatim>\<open>print\<close> writes to the console is not part of
  the result and is left out. \<^verbatim>\<open>maybe_await\<close> returns a value without \<^verbatim>\<open>__await__\<close>
  unchanged, and the formatter returns strings.
\<close>

record response =
  content :: string
  status_code :: nat
  media_type :: "string option"

datatype http_exception = HTTPException nat string

type_synonym result = "http_exception + response"

definition maybe_await :: "'a \<Rightarrow> 'a" where
  "maybe_await r = r"

definition create_xml_response :: "string \<Rightarrow> string" where
  "create_xml_response c =
     ''<?xml version='1.0' encoding='UTF-8'?><Response>'' @ c @ ''</Response>''"

definition voice_entry :: "string \<Rightarrow> string option \<Rightarrow> string option \<Rightarrow> result" where
  "voice_entry APP_URL sessionId callerNumber =
     (let response_content =
            ''<Say>Welcome to Ongea Emergency Services! Press 1 for English or 2 for Swahili.</Say>''
            @ ''<CollectDigits timeout='10' finishOnKey='#' numDigits='1' ''
            @ ''callbackUrl='' @ sq @ APP_URL @ ''/voice/language'/>'';
          xml_response = create_xml_response response_content
      in Inr \<lparr>content = xml_response, status_code = 200, media_type = Some ''text/xml''\<rparr>)"

definition language_selection ::
  "string \<Rightarrow> string option \<Rightarrow> string option \<Rightarrow> string option \<Rightarrow> result" where
  "language_selection APP_URL dtmfDigits sessionId callerNumber =
     (let pressed_key = dtmfDigits;
          call_actions =
            (if py_not pressed_key \<or> pressed_key \<notin> set [Some ''1'', Some ''2''] then
               maybe_await (saySomething
                 [''speech'' \<mapsto> ''Invalid selection. Please try again.''])
             else
               maybe_await (ongea
                 ''Welcome to Ongea Emergency Services. Press 1 to report hunger, press 2 to report water shortage, press 3 for medical emergency.''
                 ''#'' 10 (APP_URL @ ''/service/selection'')));
          xml_response = create_xml_response call_actions
      in Inr \<lparr>content = xml_response, status_code = 200, media_type = Some ''text/xml''\<rparr>)"

definition service_selection ::
  "string \<Rightarrow> string option \<Rightarrow> string option \<Rightarrow> string option \<Rightarrow> result" where
  "service_selection APP_URL dtmfDigits sessionId callerNumber =
     (let pressed_key = dtmfDigits in
      if py_not pressed_key then
        Inr \<lparr>content = '''', status_code = 204, media_type = None\<rparr>
      else
        let call_actions =
              (if pressed_key = Some ''1'' then
                 maybe_await (ongea
                   ''Thank you for reporting hunger. Please select your region: Press 1 for Nairobi, 2 for Turkana, 3 for Kiambu.''
                   ''#'' 15 (APP_URL @ ''/hunger/region''))
               else if pressed_key = Some ''2'' then
                 maybe_await (ongea
                   ''Thank you for reporting water shortage. Please select your region: Press 1 for Nairobi, 2 for Turkana, 3 for Kiambu.''
                   ''#'' 15 (APP_URL @ ''/water/region''))
               else if pressed_key = Some ''3'' then
                 maybe_await (ongea
                   ''Medical emergency reported. Please select your region: Press 1 for Nairobi, 2 for Turkana, 3 for Kiambu.''
                   ''#'' 15 (APP_URL @ ''/emergency/region''))
               else
                 maybe_await (saySomething
                   [''speech'' \<mapsto> ''Invalid selection. Please press 1, 2, or 3.'']));
            xml_response = create_xml_response call_actions
        in Inr \<lparr>content = xml_response, status_code = 200, media_type = Some ''text/xml''\<rparr>)"

definition handle_region_response :: "string option \<Rightarrow> (string \<rightharpoonup> string) \<Rightarrow> result" where
  "handle_region_response pressed_key responses =
     (if py_not pressed_key then
        Inr \<lparr>content = '''', status_code = 204, media_type = None\<rparr>
      else
        let speech_text = dict_get responses pressed_key ''Invalid selection. Goodbye.'';
            call_actions = maybe_await (saySomething [''speech'' \<mapsto> speech_text]);
            xml_response = create_xml_response call_actions
        in Inr \<lparr>content = xml_response, status_code = 200, media_type = Some ''text/xml''\<rparr>)"

text \<open>The two region tables, in the order of the dictionary literals.\<close>

definition hunger_region_responses :: "(string \<times> string) list" where
  "hunger_region_responses =
     [(''1'', ''Thank you. Nairobi region office has been notified about the hunger situation. They will contact you shortly.''),
      (''2'', ''Thank you. Turkana region office has been notified about the hunger situation. They will contact you shortly.''),
      (''3'', ''Thank you. Kiambu region office has been notified about the hunger situation. They will contact you shortly.'')]"

definition water_region_responses :: "(string \<times> string) list" where
  "water_region_responses =
     [(''1'', ''Thank you. Nairobi water department has been notified about the water shortage. They will address this issue.''),
      (''2'', ''Thank you. Turkana water department has been notified about the water shortage. They will address this issue.''),
      (''3'', ''Thank you. Kiambu water department has been notified about the water shortage. They will address this issue.'')]"

definition hunger_region_selection ::
  "string \<Rightarrow> string option \<Rightarrow> string option \<Rightarrow> string option \<Rightarrow> result" where
  "hunger_region_selection APP_URL dtmfDigits sessionId callerNumber =
     handle_region_response dtmfDigits (map_of hunger_region_responses)"

definition water_region_selection ::
  "string \<Rightarrow> string option \<Rightarrow> string option \<Rightarrow> string option \<Rightarrow> result" where
  "water_region_selection APP_URL dtmfDigits sessionId callerNumber =
     handle_region_response dtmfDigits (map_of water_region_responses)"

definition regions :: "(string \<times> string) list" where
  "regions = [(''1'', ''Nairobi''), (''2'', ''Turkana''), (''3'', ''Kiambu'')]"

text \<open>\<^verbatim>\<open>regions[pressed_key]\<close> is the one operation of a handler body that can raise; the
  \<^verbatim>\<open>except\<close> clause turns the exception into \<^verbatim>\<open>HTTPException(500)\<close>.\<close>

definition emergency_region_selection ::
  "string \<Rightarrow> string option \<Rightarrow> string option \<Rightarrow> string option \<Rightarrow> result" where
  "emergency_region_selection APP_URL dtmfDigits sessionId callerNumber =
     (let pressed_key = dtmfDigits in
      if pressed_key \<in> set [Some ''1'', Some ''2'', Some ''3''] then
        (case dict_index (map_of regions) pressed_key of
           Inl e \<Rightarrow> Inl (HTTPException 500 ''Internal server error'')
         | Inr region_name \<Rightarrow>
             let call_actions = maybe_await (recordAudio
                   [''introductionText'' \<mapsto>
                      ''Emergency services for '' @ region_name
                      @ '' region activated. Please describe your emergency in detail and press hash when finished.'',
                    ''audioProcessingUrl'' \<mapsto> APP_URL @ ''/emergency/recording'']);
                 xml_response = create_xml_response call_actions
             in Inr \<lparr>content = xml_response, status_code = 200, media_type = Some ''text/xml''\<rparr>)
      else
        let call_actions = maybe_await (saySomething
              [''speech'' \<mapsto> ''Invalid selection. Please press 1, 2, or 3.'']);
            xml_response = create_xml_response call_actions
        in Inr \<lparr>content = xml_response, status_code = 200, media_type = Some ''text/xml''\<rparr>)"

definition emergency_recording_handler ::
  "string \<Rightarrow> string option \<Rightarrow> string option \<Rightarrow> string option \<Rightarrow> string option \<Rightarrow> result" where
  "emergency_recording_handler APP_URL recordingUrl durationInSeconds sessionId callerNumber =
     (let call_actions = maybe_await (saySomething
            [''speech'' \<mapsto> ''Your emergency report has been recorded and sent to the appropriate authorities. Emergency services will respond shortly. Thank you for calling.'']);
          xml_response = create_xml_response call_actions
      in Inr \<lparr>content = xml_response, status_code = 200, media_type = Some ''text/xml''\<rparr>)"

definition ongea_special :: "string \<Rightarrow> string option \<Rightarrow> result" where
  "ongea_special APP_URL dtmfDigits =
     (let pressed_key = dtmfDigits in
      if pressed_key \<in> set [None, Some ''undefined''] then
        Inr \<lparr>content = '''', status_code = 204, media_type = None\<rparr>
      else
        let call_actions =
              (if pressed_key = Some ''2545'' then
                 maybe_await (ongea ''Welcome Back to Medicare Services.'' ''#'' 15
                   (APP_URL @ ''/emergency/region''))
               else
                 maybe_await (saySomething
                   [''speech'' \<mapsto> ''The code entered is not valid.'']));
            xml_response = create_xml_response call_actions
        in Inr \<lparr>content = xml_response, status_code = 200, media_type = Some ''text/xml''\<rparr>)"


section \<open>Reading a response\<close>

text \<open>
  \<open>occurrences p s\<close> counts the positions of \<open>s\<close> at which \<open>p\<close> starts. A response says
  only \<open>txt\<close> when it is the 200 markup response whose document holds the one speak
  action with \<open>txt\<close>, and neither a collect nor a record action.
\<close>

fun occurrences :: "string \<Rightarrow> string \<Rightarrow> nat" where
  "occurrences p [] = (if p = [] then 1 else 0)"
| "occurrences p (c # cs) = (if prefix p (c # cs) then 1 else 0) + occurrences p cs"

definition says_only :: "string \<Rightarrow> result \<Rightarrow> bool" where
  "says_only txt r =
     (case r of
        Inl e \<Rightarrow> False
      | Inr rsp \<Rightarrow>
          status_code rsp = 200 \<and> media_type rsp = Some ''text/xml''
          \<and> content rsp =
              ''<?xml version='1.0' encoding='UTF-8'?><Response><Say>'' @ txt @ ''</Say></Response>''
          \<and> occurrences ''<Say>'' (content rsp) = 1
          \<and> occurrences ''<CollectDigits'' (content rsp) = 0
          \<and> occurrences ''<Record'' (content rsp) = 0)"

text \<open>
  The characters that matter to the markup: the two angle brackets, the ampersand and
  the apostrophe that delimits an attribute. A fragment is a single speak element when
  it starts with the opening tag, ends with the closing tag and no other tag opens in
  it: an escaped text would hold no \<^verbatim>\<open><\<close> of its own.
\<close>

definition markup_significant :: "char \<Rightarrow> bool" where
  "markup_significant c = (c \<in> set (''<>&'' @ sq))"

definition single_say :: "string \<Rightarrow> bool" where
  "single_say frag =
     (prefix ''<Say>'' frag \<and> suffix ''</Say>'' frag \<and> occurrences ''<'' frag = 2)"


section \<open>Missing and empty input\<close>

text \<open>
  C2. At the ServiceSelect, HungerRegion and WaterRegion steps a missing \<^verbatim>\<open>dtmfDigits\<close>
  gives the no-op response: status 204 with an empty body, so no speak action and no
  markup document are emitted.
\<close>

theorem missing_input_is_no_op:
  "service_selection APP_URL None sessionId callerNumber
     = Inr \<lparr>content = '''', status_code = 204, media_type = None\<rparr>
   \<and> hunger_region_selection APP_URL None sessionId callerNumber
     = Inr \<lparr>content = '''', status_code = 204, media_type = None\<rparr>
   \<and> water_region_selection APP_URL None sessionId callerNumber
     = Inr \<lparr>content = '''', status_code = 204, media_type = None\<rparr>
   \<and> occurrences ''<Say>'' '''' = 0 \<and> occurrences ''<Response>'' '''' = 0"
  by (simp add: service_selection_def hunger_region_selection_def water_region_selection_def
      handle_region_response_def py_not_def)

text \<open>
  C10. At the same three steps an empty \<^verbatim>\<open>dtmfDigits\<close> is handled as a missing one:
  the response is the 204 no-op, the same as without the field, and not the
  invalid-selection speak action.
\<close>

theorem empty_input_is_no_op:
  "service_selection APP_URL (Some '''') sessionId callerNumber
     = Inr \<lparr>content = '''', status_code = 204, media_type = None\<rparr>
   \<and> service_selection APP_URL (Some '''') sessionId callerNumber
     = service_selection APP_URL None sessionId callerNumber
   \<and> \<not> says_only ''Invalid selection. Please press 1, 2, or 3.''
         (service_selection APP_URL (Some '''') sessionId callerNumber)
   \<and> hunger_region_selection APP_URL (Some '''') sessionId callerNumber
     = Inr \<lparr>content = '''', status_code = 204, media_type = None\<rparr>
   \<and> hunger_region_selection APP_URL (Some '''') sessionId callerNumber
     = hunger_region_selection APP_URL None sessionId callerNumber
   \<and> \<not> says_only ''Invalid selection. Goodbye.''
         (hunger_region_selection APP_URL (Some '''') sessionId callerNumber)
   \<and> water_region_selection APP_URL (Some '''') sessionId callerNumber
     = Inr \<lparr>content = '''', status_code = 204, media_type = None\<rparr>
   \<and> water_region_selection APP_URL (Some '''') sessionId callerNumber
     = water_region_selection APP_URL None sessionId callerNumber
   \<and> \<not> says_only ''Invalid selection. Goodbye.''
         (water_region_selection APP_URL (Some '''') sessionId callerNumber)"
  by (simp add: service_selection_def hunger_region_selection_def water_region_selection_def
      handle_region_response_def py_not_def says_only_def)

text \<open>
  C9. The EmergencyRegion step has no such rule: without \<^verbatim>\<open>dtmfDigits\<close> it answers with
  the 200 markup response that says "Invalid selection. Please press 1, 2, or 3.",
  not with the empty 204 body.
\<close>

theorem emergency_region_missing_input:
  "emergency_region_selection APP_URL None sessionId callerNumber
     = Inr \<lparr>content = ''<?xml version='1.0' encoding='UTF-8'?><Response><Say>Invalid selection. Please press 1, 2, or 3.</Say></Response>'',
            status_code = 200, media_type = Some ''text/xml''\<rparr>
   \<and> emergency_region_selection APP_URL None sessionId callerNumber
     \<noteq> Inr \<lparr>content = '''', status_code = 204, media_type = None\<rparr>"
  by (simp add: emergency_region_selection_def saySomething_def create_xml_response_def
      maybe_await_def dict_get_def)


section \<open>The entry step and the emergency branch\<close>

text \<open>
  C5. Whatever \<^verbatim>\<open>sessionId\<close> and \<^verbatim>\<open>callerNumber\<close> are, present or not, the Entry step
  returns the 200 markup response with the welcome greeting in a speak action and a
  collect action with timeout 10, finishOnKey \<^verbatim>\<open>#\<close>, numDigits 1 and the callback URL
  made of the base URL followed by \<^verbatim>\<open>/voice/language\<close>.
\<close>

theorem voice_entry_greets:
  "voice_entry APP_URL sessionId callerNumber
     = Inr \<lparr>content = ''<?xml version='1.0' encoding='UTF-8'?><Response><Say>Welcome to Ongea Emergency Services! Press 1 for English or 2 for Swahili.</Say><CollectDigits timeout='10' finishOnKey='#' numDigits='1' callbackUrl=''
                @ sq @ APP_URL @ ''/voice/language'/></Response>'',
            status_code = 200, media_type = Some ''text/xml''\<rparr>"
  by (simp add: voice_entry_def create_xml_response_def)

text \<open>
  C3. On each of the inputs 1, 2 and 3 the EmergencyRegion step answers with a speak
  action that names the region (Nairobi, Turkana, Kiambu in this order), followed by a
  record action with maxLength 60, playBeep true and the callback URL made of the base
  URL followed by \<^verbatim>\<open>/emergency/recording\<close>.
\<close>

theorem emergency_region_records:
  "emergency_region_selection APP_URL (Some ''1'') sessionId callerNumber
     = Inr \<lparr>content = ''<?xml version='1.0' encoding='UTF-8'?><Response><Say>Emergency services for Nairobi region activated. Please describe your emergency in detail and press hash when finished.</Say><Record finishOnKey='#' maxLength='60' playBeep='true' callbackUrl=''
                @ sq @ APP_URL @ ''/emergency/recording'/></Response>'',
            status_code = 200, media_type = Some ''text/xml''\<rparr>
   \<and> emergency_region_selection APP_URL (Some ''2'') sessionId callerNumber
     = Inr \<lparr>content = ''<?xml version='1.0' encoding='UTF-8'?><Response><Say>Emergency services for Turkana region activated. Please describe your emergency in detail and press hash when finished.</Say><Record finishOnKey='#' maxLength='60' playBeep='true' callbackUrl=''
                @ sq @ APP_URL @ ''/emergency/recording'/></Response>'',
            status_code = 200, media_type = Some ''text/xml''\<rparr>
   \<and> emergency_region_selection APP_URL (Some ''3'') sessionId callerNumber
     = Inr \<lparr>content = ''<?xml version='1.0' encoding='UTF-8'?><Response><Say>Emergency services for Kiambu region activated. Please describe your emergency in detail and press hash when finished.</Say><Record finishOnKey='#' maxLength='60' playBeep='true' callbackUrl=''
                @ sq @ APP_URL @ ''/emergency/recording'/></Response>'',
            status_code = 200, media_type = Some ''text/xml''\<rparr>"
  by (simp add: emergency_region_selection_def regions_def recordAudio_def
      create_xml_response_def maybe_await_def dict_get_def dict_index_def)


section \<open>Session identifiers\<close>

text \<open>
  C8. Two calls of one handler that differ only in \<^verbatim>\<open>sessionId\<close> and \<^verbatim>\<open>callerNumber\<close>
  return the same response: status code, media type and body. The handler of the
  Diagnostic step takes \<^verbatim>\<open>dtmfDigits\<close> alone, so it has no such pair of calls.
\<close>

theorem response_independent_of_session:
  "voice_entry APP_URL sessionId callerNumber = voice_entry APP_URL sessionId' callerNumber'
   \<and> language_selection APP_URL dtmfDigits sessionId callerNumber
     = language_selection APP_URL dtmfDigits sessionId' callerNumber'
   \<and> service_selection APP_URL dtmfDigits sessionId callerNumber
     = service_selection APP_URL dtmfDigits sessionId' callerNumber'
   \<and> hunger_region_selection APP_URL dtmfDigits sessionId callerNumber
     = hunger_region_selection APP_URL dtmfDigits sessionId' callerNumber'
   \<and> water_region_selection APP_URL dtmfDigits sessionId callerNumber
     = water_region_selection APP_URL dtmfDigits sessionId' callerNumber'
   \<and> emergency_region_selection APP_URL dtmfDigits sessionId callerNumber
     = emergency_region_selection APP_URL dtmfDigits sessionId' callerNumber'
   \<and> emergency_recording_handler APP_URL recordingUrl durationInSeconds sessionId callerNumber
     = emergency_recording_handler APP_URL recordingUrl durationInSeconds sessionId' callerNumber'"
  unfolding voice_entry_def language_selection_def service_selection_def
    hunger_region_selection_def water_region_selection_def emergency_region_selection_def
    emergency_recording_handler_def
  by (intro conjI refl)


section \<open>Free text in the markup\<close>

lemma occurrences_char_append:
  "occurrences [a] (xs @ ys) = occurrences [a] xs + occurrences [a] ys"
  by (induction xs) simp_all

lemma occurrences_char_absent:
  "a \<notin> set xs \<Longrightarrow> occurrences [a] xs = 0"
  by (induction xs) auto

lemma single_say_plain:
  assumes "CHR ''<'' \<notin> set t"
  shows "single_say (''<Say>'' @ t @ ''</Say>'')"
proof -
  have "suffix ''</Say>'' (''<Say>'' @ t @ ''</Say>'')"
    by (metis suffixI append.assoc)
  moreover have "occurrences ''<'' (''<Say>'' @ t @ ''</Say>'') = 2"
    using assms by (simp add: occurrences_char_append occurrences_char_absent)
  ultimately show ?thesis
    by (simp add: single_say_def)
qed

text \<open>
  C4, as the code has it. The formatter does not escape: \<^verbatim>\<open>saySomething\<close> emits the
  speech unchanged between the two speak tags, and \<^verbatim>\<open>ongea\<close> emits the same fragment
  for its \<^verbatim>\<open>textPrompt\<close>, followed by the collect tag. When the text holds none of the
  characters \<^verbatim>\<open><\<close>, \<^verbatim>\<open>>\<close>, \<^verbatim>\<open>&\<close> and the apostrophe, the speak fragment is a single speak
  element that holds the text.
\<close>

theorem formatter_embeds_text_verbatim:
  "saySomething [''speech'' \<mapsto> t] = ''<Say>'' @ t @ ''</Say>''
   \<and> ongea t finishOnKey timeout callbackUrl
       = saySomething [''speech'' \<mapsto> t]
         @ ''<CollectDigits timeout='' @ sq @ str_int timeout @ sq
         @ '' finishOnKey='' @ sq @ finishOnKey @ sq
         @ '' callbackUrl='' @ sq @ callbackUrl @ sq @ ''/>''
   \<and> ((\<forall>c \<in> set t. \<not> markup_significant c)
        \<longrightarrow> single_say (saySomething [''speech'' \<mapsto> t]))"
proof -
  have say: "saySomething [''speech'' \<mapsto> t] = ''<Say>'' @ t @ ''</Say>''"
    by (simp add: saySomething_def dict_get_def)
  have "ongea t finishOnKey timeout callbackUrl
       = (''<Say>'' @ t @ ''</Say>'')
         @ ''<CollectDigits timeout='' @ sq @ str_int timeout @ sq
         @ '' finishOnKey='' @ sq @ finishOnKey @ sq
         @ '' callbackUrl='' @ sq @ callbackUrl @ sq @ ''/>''"
    by (simp add: ongea_def)
  moreover have "single_say (''<Say>'' @ t @ ''</Say>'')"
    if "\<forall>c \<in> set t. \<not> markup_significant c"
  proof -
    have "markup_significant CHR ''<''"
      by (simp add: markup_significant_def)
    with that have "CHR ''<'' \<notin> set t"
      by blast
    then show ?thesis
      by (rule single_say_plain)
  qed
  ultimately show ?thesis
    unfolding say by blast
qed

theorem formatter_embeds_text_verbatim_witness:
  "\<not> markup_significant CHR ''H'' \<and> \<not> markup_significant CHR ''i''
   \<and> saySomething [''speech'' \<mapsto> ''Hi''] = ''<Say>Hi</Say>''
   \<and> single_say (saySomething [''speech'' \<mapsto> ''Hi''])"
proof -
  have chars: "\<not> markup_significant CHR ''H''" "\<not> markup_significant CHR ''i''"
    by (simp_all add: markup_significant_def)
  then have plain: "\<forall>c \<in> set ''Hi''. \<not> markup_significant c"
    by simp
  note inst = formatter_embeds_text_verbatim [of "''Hi''" "''#''" 10 "''u''"]
  from inst have "saySomething [''speech'' \<mapsto> ''Hi''] = ''<Say>'' @ ''Hi'' @ ''</Say>''"
    by blast
  then have raw: "saySomething [''speech'' \<mapsto> ''Hi''] = ''<Say>Hi</Say>''"
    by simp
  from inst plain have "single_say (saySomething [''speech'' \<mapsto> ''Hi''])"
    by blast
  with chars raw show ?thesis
    by blast
qed

text \<open>
  C4 as it is written fails: a speech that closes the speak tag, adds a hang-up action
  and opens a new speak tag comes out as three elements, in \<^verbatim>\<open>saySomething\<close> and in
  \<^verbatim>\<open>ongea\<close>, and each of the four characters is emitted as it is.
\<close>

theorem formatter_escapes_counterexample:
  "markup_significant CHR ''<''
   \<and> saySomething [''speech'' \<mapsto> ''</Say><Hangup/><Say>'']
       = ''<Say></Say><Hangup/><Say></Say>''
   \<and> \<not> single_say (saySomething [''speech'' \<mapsto> ''</Say><Hangup/><Say>''])
   \<and> prefix ''<Say></Say><Hangup/><Say></Say><CollectDigits ''
         (ongea ''</Say><Hangup/><Say>'' ''#'' 10 ''https://your-domain.com/service/selection'')
   \<and> saySomething [''speech'' \<mapsto> ''<>&'' @ sq] = ''<Say><>&'' @ sq @ ''</Say>''"
  by (simp add: markup_significant_def saySomething_def ongea_def dict_get_def single_say_def)


section \<open>The diagnostic step\<close>

text \<open>
  C7. At the Diagnostic step the input 2545 gives the "Welcome Back" speak action and a
  collect action whose callback URL is the base URL followed by \<^verbatim>\<open>/emergency/region\<close>;
  a missing input and the input \<^verbatim>\<open>undefined\<close> give the 204 no-op; every other input
  gives the speak action "The code entered is not valid." alone.
\<close>

theorem ongea_special_cases:
  "ongea_special APP_URL (Some ''2545'')
     = Inr \<lparr>content = ''<?xml version='1.0' encoding='UTF-8'?><Response><Say>Welcome Back to Medicare Services.</Say><CollectDigits timeout='15' finishOnKey='#' callbackUrl=''
                @ sq @ APP_URL @ ''/emergency/region'/></Response>'',
            status_code = 200, media_type = Some ''text/xml''\<rparr>
   \<and> ongea_special APP_URL None
     = Inr \<lparr>content = '''', status_code = 204, media_type = None\<rparr>
   \<and> ongea_special APP_URL (Some ''undefined'')
     = Inr \<lparr>content = '''', status_code = 204, media_type = None\<rparr>
   \<and> (dtmfDigits \<notin> set [None, Some ''undefined'', Some ''2545'']
        \<longrightarrow> says_only ''The code entered is not valid.'' (ongea_special APP_URL dtmfDigits))"
proof -
  have "ongea_special APP_URL (Some ''2545'')
     = Inr \<lparr>content = ''<?xml version='1.0' encoding='UTF-8'?><Response><Say>Welcome Back to Medicare Services.</Say><CollectDigits timeout='15' finishOnKey='#' callbackUrl=''
                @ sq @ APP_URL @ ''/emergency/region'/></Response>'',
            status_code = 200, media_type = Some ''text/xml''\<rparr>"
    by (simp add: ongea_special_def ongea_def create_xml_response_def maybe_await_def
        str_int_def)
  moreover have "ongea_special APP_URL None
     = Inr \<lparr>content = '''', status_code = 204, media_type = None\<rparr>"
    by (simp add: ongea_special_def)
  moreover have "ongea_special APP_URL (Some ''undefined'')
     = Inr \<lparr>content = '''', status_code = 204, media_type = None\<rparr>"
    by (simp add: ongea_special_def)
  moreover have "says_only ''The code entered is not valid.'' (ongea_special APP_URL dtmfDigits)"
    if "dtmfDigits \<notin> set [None, Some ''undefined'', Some ''2545'']"
    using that
    by (simp add: ongea_special_def saySomething_def create_xml_response_def maybe_await_def
        dict_get_def says_only_def)
  ultimately show ?thesis
    by blast
qed

theorem ongea_special_cases_witness:
  "Some ''1234'' \<notin> set [None, Some ''undefined'', Some ''2545'']
   \<and> says_only ''The code entered is not valid.''
         (ongea_special ''https://your-domain.com'' (Some ''1234''))"
proof -
  have other: "Some ''1234'' \<notin> set [None, Some ''undefined'', Some ''2545'']"
    by simp
  with ongea_special_cases [of "''https://your-domain.com''" "Some ''1234''"]
  show ?thesis
    by blast
qed

section \<open>Invalid selections and the region tables\<close>

text \<open>A text without \<^verbatim>\<open><\<close>, spoken alone in the envelope, is a response that says only
  that text.\<close>

lemma occurrences_tag_skip:
  "a \<notin> set xs \<Longrightarrow> occurrences (a # p) (xs @ ys) = occurrences (a # p) ys"
  by (induction xs) auto

lemma says_only_say:
  assumes "CHR ''<'' \<notin> set txt"
  shows "says_only txt
           (Inr \<lparr>content = create_xml_response (maybe_await (saySomething [''speech'' \<mapsto> txt])),
                 status_code = 200, media_type = Some ''text/xml''\<rparr>)"
  using assms
  by (simp add: says_only_def create_xml_response_def maybe_await_def saySomething_def
      dict_get_def occurrences_tag_skip)

text \<open>
  C1, as the code has it. At the LanguageSelect, ServiceSelect, HungerRegion,
  WaterRegion, EmergencyRegion and Diagnostic steps, a present input outside the
  step's valid inputs gives the 200 markup response with exactly one speak action, the
  step's invalid-selection text, and no collect or record action; the empty string at
  ServiceSelect, HungerRegion and WaterRegion and the input \<^verbatim>\<open>undefined\<close> at Diagnostic
  are left out: there the handlers answer with the 204 no-op.
\<close>

theorem invalid_input_says_only:
  "(k \<notin> set [''1'', ''2'']
      \<longrightarrow> says_only ''Invalid selection. Please try again.''
            (language_selection APP_URL (Some k) sessionId callerNumber))
   \<and> (k \<notin> set [''1'', ''2'', ''3''] \<and> k \<noteq> ''''
      \<longrightarrow> says_only ''Invalid selection. Please press 1, 2, or 3.''
            (service_selection APP_URL (Some k) sessionId callerNumber))
   \<and> (k \<notin> set (map fst hunger_region_responses) \<and> k \<noteq> ''''
      \<longrightarrow> says_only ''Invalid selection. Goodbye.''
            (hunger_region_selection APP_URL (Some k) sessionId callerNumber))
   \<and> (k \<notin> set (map fst water_region_responses) \<and> k \<noteq> ''''
      \<longrightarrow> says_only ''Invalid selection. Goodbye.''
            (water_region_selection APP_URL (Some k) sessionId callerNumber))
   \<and> (k \<notin> set [''1'', ''2'', ''3'']
      \<longrightarrow> says_only ''Invalid selection. Please press 1, 2, or 3.''
            (emergency_region_selection APP_URL (Some k) sessionId callerNumber))
   \<and> (k \<notin> set [''2545''] \<and> k \<noteq> ''undefined''
      \<longrightarrow> says_only ''The code entered is not valid.'' (ongea_special APP_URL (Some k)))"
proof -
  note fmt = Let_def py_not_def dict_get_def says_only_say
  have "says_only ''Invalid selection. Please try again.''
          (language_selection APP_URL (Some k) sessionId callerNumber)"
    if "k \<notin> set [''1'', ''2'']"
    using that by (simp add: language_selection_def fmt)
  moreover have "says_only ''Invalid selection. Please press 1, 2, or 3.''
          (service_selection APP_URL (Some k) sessionId callerNumber)"
    if "k \<notin> set [''1'', ''2'', ''3'']" "k \<noteq> ''''"
    using that by (simp add: service_selection_def fmt)
  moreover have "says_only ''Invalid selection. Goodbye.''
          (hunger_region_selection APP_URL (Some k) sessionId callerNumber)"
    if "k \<notin> set (map fst hunger_region_responses)" "k \<noteq> ''''"
    using that
    by (simp add: hunger_region_selection_def handle_region_response_def
        hunger_region_responses_def fmt)
  moreover have "says_only ''Invalid selection. Goodbye.''
          (water_region_selection APP_URL (Some k) sessionId callerNumber)"
    if "k \<notin> set (map fst water_region_responses)" "k \<noteq> ''''"
    using that
    by (simp add: water_region_selection_def handle_region_response_def
        water_region_responses_def fmt)
  moreover have "says_only ''Invalid selection. Please press 1, 2, or 3.''
          (emergency_region_selection APP_URL (Some k) sessionId callerNumber)"
    if "k \<notin> set [''1'', ''2'', ''3'']"
    using that by (simp add: emergency_region_selection_def fmt)
  moreover have "says_only ''The code entered is not valid.'' (ongea_special APP_URL (Some k))"
    if "k \<notin> set [''2545'']" "k \<noteq> ''undefined''"
    using that by (simp add: ongea_special_def fmt)
  ultimately show ?thesis
    by blast
qed

theorem invalid_input_says_only_witness:
  "''7'' \<notin> set [''1'', ''2''] \<and> ''7'' \<notin> set [''1'', ''2'', ''3''] \<and> ''7'' \<noteq> ''''
   \<and> ''7'' \<notin> set (map fst hunger_region_responses)
   \<and> ''7'' \<notin> set (map fst water_region_responses)
   \<and> ''7'' \<notin> set [''2545''] \<and> ''7'' \<noteq> ''undefined''
   \<and> says_only ''Invalid selection. Please try again.''
         (language_selection ''https://your-domain.com'' (Some ''7'') None None)
   \<and> says_only ''Invalid selection. Please press 1, 2, or 3.''
         (service_selection ''https://your-domain.com'' (Some ''7'') None None)
   \<and> says_only ''Invalid selection. Goodbye.''
         (hunger_region_selection ''https://your-domain.com'' (Some ''7'') None None)
   \<and> says_only ''Invalid selection. Goodbye.''
         (water_region_selection ''https://your-domain.com'' (Some ''7'') None None)
   \<and> says_only ''Invalid selection. Please press 1, 2, or 3.''
         (emergency_region_selection ''https://your-domain.com'' (Some ''7'') None None)
   \<and> says_only ''The code entered is not valid.''
         (ongea_special ''https://your-domain.com'' (Some ''7''))"
proof -
  have hyps:
    "''7'' \<notin> set [''1'', ''2'']" "''7'' \<notin> set [''1'', ''2'', ''3'']" "''7'' \<noteq> ''''"
    "''7'' \<notin> set (map fst hunger_region_responses)"
    "''7'' \<notin> set (map fst water_region_responses)"
    "''7'' \<notin> set [''2545'']" "''7'' \<noteq> ''undefined''"
    by (simp_all add: hunger_region_responses_def water_region_responses_def)
  with invalid_input_says_only [of "''7''" "''https://your-domain.com''" None None]
  show ?thesis
    by blast
qed

text \<open>
  C1 as it is written fails: \<^verbatim>\<open>undefined\<close> at the Diagnostic step and the empty string
  at the ServiceSelect step are present inputs outside the valid inputs, and both get
  the empty 204 response, with no speak action.
\<close>

theorem invalid_input_counterexample:
  "Some ''undefined'' \<noteq> None \<and> ''undefined'' \<notin> set [''2545'']
   \<and> ongea_special ''https://your-domain.com'' (Some ''undefined'')
       = Inr \<lparr>content = '''', status_code = 204, media_type = None\<rparr>
   \<and> \<not> says_only ''The code entered is not valid.''
         (ongea_special ''https://your-domain.com'' (Some ''undefined''))
   \<and> Some '''' \<noteq> None \<and> '''' \<notin> set [''1'', ''2'', ''3'']
   \<and> service_selection ''https://your-domain.com'' (Some '''') None None
       = Inr \<lparr>content = '''', status_code = 204, media_type = None\<rparr>
   \<and> \<not> says_only ''Invalid selection. Please press 1, 2, or 3.''
         (service_selection ''https://your-domain.com'' (Some '''') None None)"
  by (simp add: ongea_special_def service_selection_def py_not_def says_only_def)

text \<open>
  C6. For every entry of the hunger table and of the water table (the keys of both are
  1, 2 and 3), the region handler on the key answers with the speak action of the
  entry's text alone, and the text contains the name the \<^verbatim>\<open>regions\<close> dictionary gives
  the key (Nairobi, Turkana, Kiambu) and the responder of the category: "region office"
  for hunger, "water department" for water.
\<close>

theorem region_tables_acknowledge:
  "(\<forall>(k, v) \<in> set hunger_region_responses.
      says_only v (hunger_region_selection APP_URL (Some k) sessionId callerNumber)
      \<and> (case map_of regions k of None \<Rightarrow> False | Some name \<Rightarrow> sublist name v)
      \<and> sublist ''region office'' v)
   \<and> (\<forall>(k, v) \<in> set water_region_responses.
      says_only v (water_region_selection APP_URL (Some k) sessionId callerNumber)
      \<and> (case map_of regions k of None \<Rightarrow> False | Some name \<Rightarrow> sublist name v)
      \<and> sublist ''water department'' v)
   \<and> map fst hunger_region_responses = [''1'', ''2'', ''3'']
   \<and> map fst water_region_responses = [''1'', ''2'', ''3'']
   \<and> map_of regions ''1'' = Some ''Nairobi'' \<and> map_of regions ''2'' = Some ''Turkana''
   \<and> map_of regions ''3'' = Some ''Kiambu''"
proof -
  note fmt = handle_region_response_def Let_def py_not_def dict_get_def says_only_say
    regions_def sublist_code
  have "\<forall>(k, v) \<in> set hunger_region_responses.
      says_only v (hunger_region_selection APP_URL (Some k) sessionId callerNumber)
      \<and> (case map_of regions k of None \<Rightarrow> False | Some name \<Rightarrow> sublist name v)
      \<and> sublist ''region office'' v"
    by (simp add: hunger_region_selection_def hunger_region_responses_def fmt)
  moreover have "\<forall>(k, v) \<in> set water_region_responses.
      says_only v (water_region_selection APP_URL (Some k) sessionId callerNumber)
      \<and> (case map_of regions k of None \<Rightarrow> False | Some name \<Rightarrow> sublist name v)
      \<and> sublist ''water department'' v"
    by (simp add: water_region_selection_def water_region_responses_def fmt)
  moreover have "map fst hunger_region_responses = [''1'', ''2'', ''3'']"
    "map fst water_region_responses = [''1'', ''2'', ''3'']"
    by (simp_all add: hunger_region_responses_def water_region_responses_def)
  moreover have "map_of regions ''1'' = Some ''Nairobi''" "map_of regions ''2'' = Some ''Turkana''"
    "map_of regions ''3'' = Some ''Kiambu''"
    by (simp_all add: regions_def)
  ultimately show ?thesis
    by blast
qed

theorem region_tables_acknowledge_witness:
  "(''2'', ''Thank you. Turkana region office has been notified about the hunger situation. They will contact you shortly.'')
      \<in> set hunger_region_responses
   \<and> says_only ''Thank you. Turkana region office has been notified about the hunger situation. They will contact you shortly.''
         (hunger_region_selection ''https://your-domain.com'' (Some ''2'') None None)
   \<and> sublist ''Turkana'' ''Thank you. Turkana region office has been notified about the hunger situation. They will contact you shortly.''
   \<and> (''3'', ''Thank you. Kiambu water department has been notified about the water shortage. They will address this issue.'')
      \<in> set water_region_responses
   \<and> says_only ''Thank you. Kiambu water department has been notified about the water shortage. They will address this issue.''
         (water_region_selection ''https://your-domain.com'' (Some ''3'') None None)
   \<and> sublist ''water department'' ''Thank you. Kiambu water department has been notified about the water shortage. They will address this issue.''"
proof -
  note inst = region_tables_acknowledge [of "''https://your-domain.com''" None None]
  have h: "(''2'', ''Thank you. Turkana region office has been notified about the hunger situation. They will contact you shortly.'')
      \<in> set hunger_region_responses"
    by (simp add: hunger_region_responses_def)
  have w: "(''3'', ''Thank you. Kiambu water department has been notified about the water shortage. They will address this issue.'')
      \<in> set water_region_responses"
    by (simp add: water_region_responses_def)
  from inst h
  have "says_only ''Thank you. Turkana region office has been notified about the hunger situation. They will contact you shortly.''
         (hunger_region_selection ''https://your-domain.com'' (Some ''2'') None None)
     \<and> (case map_of regions ''2'' of None \<Rightarrow> False
         | Some name \<Rightarrow> sublist name ''Thank you. Turkana region office has been notified about the hunger situation. They will contact you shortly.'')"
    by blast
  moreover from inst have "map_of regions ''2'' = Some ''Turkana''"
    by blast
  moreover from inst w
  have "says_only ''Thank you. Kiambu water department has been notified about the water shortage. They will address this issue.''
         (water_region_selection ''https://your-domain.com'' (Some ''3'') None None)
     \<and> sublist ''water department'' ''Thank you. Kiambu water department has been notified about the water shortage. They will address this issue.''"
    by blast
  ultimately show ?thesis
    using h w by simp
qed

end
